theory Spec2Isabelle
  imports Main "HOL-Library.Word"
begin

section \<open>Storage market types (package storagemarket)\<close>

text \<open>
  Opaque identifiers of the source (content identifiers, peer identities, addresses,
  file-store paths, signatures) are modelled by their textual form. A Go \<open>error\<close> value
  is modelled by the text its \<open>Error()\<close> method returns.
\<close>

type_synonym cid = string
type_synonym peer_id = string
type_synonym address = string
type_synonym path = string
type_synonym signature = string
type_synonym err = string

text \<open>\<open>abi.TokenAmount\<close> is a big integer, \<open>abi.ChainEpoch\<close> is read as an integer,
  \<open>abi.DealID\<close> and \<open>abi.PaddedPieceSize\<close> are unsigned 64-bit integers.\<close>

type_synonym TokenAmount = int
type_synonym ChainEpoch = int
type_synonym DealID = "64 word"
type_synonym PaddedPieceSize = "64 word"

text \<open>The lifecycle status codes, in the order of the \<open>iota\<close> block.\<close>

datatype StorageDealStatus =
    StorageDealUnknown
  | StorageDealProposalNotFound
  | StorageDealProposalRejected
  | StorageDealProposalAccepted
  | StorageDealStaged
  | StorageDealSealing
  | StorageDealActive
  | StorageDealFailing
  | StorageDealNotFound
  | StorageDealFundsEnsured
  | StorageDealValidating
  | StorageDealTransferring
  | StorageDealWaitingForData
  | StorageDealVerifyData
  | StorageDealEnsureProviderFunds
  | StorageDealEnsureClientFunds
  | StorageDealProviderFunding
  | StorageDealClientFunding
  | StorageDealPublish
  | StorageDealPublishing
  | StorageDealError
  | StorageDealCompleted

record StorageAsk =
  Price :: TokenAmount
  MinPieceSize :: PaddedPieceSize
  MaxPieceSize :: PaddedPieceSize
  AskMiner :: address
  Timestamp :: ChainEpoch
  Expiry :: ChainEpoch
  SeqNo :: "64 word"

record DataRef =
  TransferType :: string
  Root :: cid
  PieceCid :: "cid option"
  RefPieceSize :: "64 word"

text \<open>The deal proposal as the test file builds it (\<open>market.DealProposal\<close>).\<close>

record DealProposal =
  PieceCID :: cid
  PieceSize :: PaddedPieceSize
  Client :: address
  Provider :: address
  StartEpoch :: ChainEpoch
  EndEpoch :: ChainEpoch
  StoragePricePerEpoch :: TokenAmount
  ProviderCollateral :: TokenAmount
  ClientCollateral :: TokenAmount

text \<open>The provider deal record. The embedded \<open>market.ClientDealProposal\<close> contributes
  the fields \<open>Proposal\<close> and \<open>ClientSignature\<close>; the peer identity of the client is
  \<open>ClientPeer\<close> here, since \<open>Client\<close> names the proposal's address field.\<close>

record MinerDeal =
  Proposal :: DealProposal
  ClientSignature :: signature
  ProposalCid :: cid
  AddFundsCid :: "cid option"
  PublishCid :: "cid option"
  Miner :: peer_id
  ClientPeer :: peer_id
  State :: StorageDealStatus
  PiecePath :: path
  MetadataPath :: path
  ConnectionClosed :: bool
  Message :: string
  Ref :: "DataRef option"
  DealID :: DealID

text \<open>The provider event codes, in the order of the \<open>iota\<close> block.\<close>

datatype ProviderEvent =
    ProviderEventOpen
  | ProviderEventNodeErrored
  | ProviderEventDealRejected
  | ProviderEventDealAccepted
  | ProviderEventWaitingForManualData
  | ProviderEventInsufficientFunds
  | ProviderEventFundingInitiated
  | ProviderEventFunded
  | ProviderEventDataTransferFailed
  | ProviderEventDataTransferInitiated
  | ProviderEventDataTransferCompleted
  | ProviderEventManualDataReceived
  | ProviderEventGeneratePieceCIDFailed
  | ProviderEventVerifiedData
  | ProviderEventSendResponseFailed
  | ProviderEventDealPublishInitiated
  | ProviderEventDealPublished
  | ProviderEventDealPublishError
  | ProviderEventFileStoreErrored
  | ProviderEventDealHandoffFailed
  | ProviderEventDealHandedOff
  | ProviderEventDealActivationFailed
  | ProviderEventUnableToLocatePiece
  | ProviderEventDealActivated
  | ProviderEventPieceStoreErrored
  | ProviderEventReadMetadataErrored
  | ProviderEventDealCompleted
  | ProviderEventFailed
  | ProviderEventRestart

text \<open>\<open>storagemarket.ProviderEvents\<close>: the display names of the provider events, as the
  map literal lists them.\<close>

definition ProviderEvents :: "(ProviderEvent \<times> string) list" where
  "ProviderEvents = [
    (ProviderEventOpen, ''ProviderEventOpen''),
    (ProviderEventNodeErrored, ''ProviderEventNodeErrored''),
    (ProviderEventDealRejected, ''ProviderEventDealRejected''),
    (ProviderEventDealAccepted, ''ProviderEventDealAccepted''),
    (ProviderEventWaitingForManualData, ''ProviderEventWaitingForManualData''),
    (ProviderEventInsufficientFunds, ''ProviderEventInsufficientFunds''),
    (ProviderEventFundingInitiated, ''ProviderEventFundingInitiated''),
    (ProviderEventFunded, ''ProviderEventFunded''),
    (ProviderEventDataTransferFailed, ''ProviderEventDataTransferFailed''),
    (ProviderEventDataTransferInitiated, ''ProviderEventDataTransferInitiated''),
    (ProviderEventDataTransferCompleted, ''ProviderEventDataTransferCompleted''),
    (ProviderEventManualDataReceived, ''ProviderEventManualDataReceived''),
    (ProviderEventGeneratePieceCIDFailed, ''ProviderEventGeneratePieceCIDFailed''),
    (ProviderEventVerifiedData, ''ProviderEventVerifiedData''),
    (ProviderEventSendResponseFailed, ''ProviderEventSendResponseFailed''),
    (ProviderEventDealPublishInitiated, ''ProviderEventDealPublishInitiated''),
    (ProviderEventDealPublished, ''ProviderEventDealPublished''),
    (ProviderEventDealPublishError, ''ProviderEventDealPublishError''),
    (ProviderEventFileStoreErrored, ''ProviderEventFileStoreErrored''),
    (ProviderEventDealHandoffFailed, ''ProviderEventDealHandoffFailed''),
    (ProviderEventDealHandedOff, ''ProviderEventDealHandedOff''),
    (ProviderEventDealActivationFailed, ''ProviderEventDealActivationFailed''),
    (ProviderEventUnableToLocatePiece, ''ProviderEventUnableToLocatePiece''),
    (ProviderEventDealActivated, ''ProviderEventDealActivated''),
    (ProviderEventPieceStoreErrored, ''ProviderEventPieceStoreErrored''),
    (ProviderEventReadMetadataErrored, ''ProviderEventReadMetadataErrored''),
    (ProviderEventDealCompleted, ''ProviderEventDealCompleted''),
    (ProviderEventFailed, ''ProviderEventFailed''),
    (ProviderEventRestart, ''ProviderEventRestart'')]"

text \<open>The client event codes and \<open>storagemarket.ClientEvents\<close>, their display names.\<close>

datatype ClientEvent =
    ClientEventOpen
  | ClientEventEnsureFundsFailed
  | ClientEventFundingInitiated
  | ClientEventFundsEnsured
  | ClientEventWriteProposalFailed
  | ClientEventDealProposed
  | ClientEventDealStreamLookupErrored
  | ClientEventReadResponseFailed
  | ClientEventResponseVerificationFailed
  | ClientEventResponseDealDidNotMatch
  | ClientEventStreamCloseError
  | ClientEventDealRejected
  | ClientEventDealAccepted
  | ClientEventDealPublishFailed
  | ClientEventDealPublished
  | ClientEventDealActivationFailed
  | ClientEventDealActivated
  | ClientEventFailed
  | ClientEventRestart

definition ClientEvents :: "(ClientEvent \<times> string) list" where
  "ClientEvents = [
    (ClientEventOpen, ''ClientEventOpen''),
    (ClientEventEnsureFundsFailed, ''ClientEventEnsureFundsFailed''),
    (ClientEventFundingInitiated, ''ClientEventFundingInitiated''),
    (ClientEventFundsEnsured, ''ClientEventFundsEnsured''),
    (ClientEventWriteProposalFailed, ''ClientEventWriteProposalFailed''),
    (ClientEventDealProposed, ''ClientEventDealProposed''),
    (ClientEventDealStreamLookupErrored, ''ClientEventDealStreamLookupErrored''),
    (ClientEventReadResponseFailed, ''ClientEventReadResponseFailed''),
    (ClientEventResponseVerificationFailed, ''ClientEventResponseVerificationFailed''),
    (ClientEventResponseDealDidNotMatch, ''ClientEventResponseDealDidNotMatch''),
    (ClientEventStreamCloseError, ''ClientEventStreamCloseError''),
    (ClientEventDealRejected, ''ClientEventDealRejected''),
    (ClientEventDealAccepted, ''ClientEventDealAccepted''),
    (ClientEventDealPublishFailed, ''ClientEventDealPublishFailed''),
    (ClientEventDealPublished, ''ClientEventDealPublished''),
    (ClientEventDealActivationFailed, ''ClientEventDealActivationFailed''),
    (ClientEventDealActivated, ''ClientEventDealActivated''),
    (ClientEventFailed, ''ClientEventFailed'')]"

text \<open>Reading a Go map at a key: the value and whether the key is present.\<close>

definition event_name :: "('k \<times> string) list \<Rightarrow> 'k \<Rightarrow> string option" where
  "event_name names k = map_of names k"

section \<open>Formatting\<close>

text \<open>The verb \<open>%d\<close> on an unsigned integer and \<open>%s\<close> on a big integer print decimal
  digits, with a leading minus sign for a negative big integer.\<close>

definition digit_char :: "nat \<Rightarrow> char" where
  "digit_char d = ''0123456789'' ! d"

fun show_nat :: "nat \<Rightarrow> string" where
  "show_nat n = (if n < 10 then [digit_char n] else show_nat (n div 10) @ [digit_char (n mod 10)])"

declare show_nat.simps [simp del]

definition show_int :: "int \<Rightarrow> string" where
  "show_int i = (if i < 0 then CHR ''-'' # show_nat (nat (- i)) else show_nat (nat i))"

section \<open>The provider state machine (package providerstates)\<close>

text \<open>
  An event is fired with the arguments its action takes; the fired event is a tagged
  value carrying them. Events that have no action carry nothing.
\<close>

datatype event =
    Open
  | NodeErrored err
  | DealRejected err
  | DealAccepted
  | WaitingForManualData
  | InsufficientFunds
  | FundingInitiated cid
  | Funded
  | DataTransferFailed err
  | DataTransferInitiated
  | DataTransferCompleted
  | ManualDataReceived
  | GeneratePieceCIDFailed err
  | VerifiedData path path
  | SendResponseFailed err
  | DealPublishInitiated cid
  | DealPublished DealID
  | DealPublishError err
  | FileStoreErrored err
  | DealHandoffFailed err
  | DealHandedOff
  | DealActivationFailed err
  | UnableToLocatePiece DealID err
  | DealActivated
  | PieceStoreErrored err
  | ReadMetadataErrored err
  | DealCompleted
  | Failed
  | Restart

fun kind :: "event \<Rightarrow> ProviderEvent" where
  "kind Open = ProviderEventOpen"
| "kind (NodeErrored e) = ProviderEventNodeErrored"
| "kind (DealRejected e) = ProviderEventDealRejected"
| "kind DealAccepted = ProviderEventDealAccepted"
| "kind WaitingForManualData = ProviderEventWaitingForManualData"
| "kind InsufficientFunds = ProviderEventInsufficientFunds"
| "kind (FundingInitiated c) = ProviderEventFundingInitiated"
| "kind Funded = ProviderEventFunded"
| "kind (DataTransferFailed e) = ProviderEventDataTransferFailed"
| "kind DataTransferInitiated = ProviderEventDataTransferInitiated"
| "kind DataTransferCompleted = ProviderEventDataTransferCompleted"
| "kind ManualDataReceived = ProviderEventManualDataReceived"
| "kind (GeneratePieceCIDFailed e) = ProviderEventGeneratePieceCIDFailed"
| "kind (VerifiedData p m) = ProviderEventVerifiedData"
| "kind (SendResponseFailed e) = ProviderEventSendResponseFailed"
| "kind (DealPublishInitiated c) = ProviderEventDealPublishInitiated"
| "kind (DealPublished d) = ProviderEventDealPublished"
| "kind (DealPublishError e) = ProviderEventDealPublishError"
| "kind (FileStoreErrored e) = ProviderEventFileStoreErrored"
| "kind (DealHandoffFailed e) = ProviderEventDealHandoffFailed"
| "kind DealHandedOff = ProviderEventDealHandedOff"
| "kind (DealActivationFailed e) = ProviderEventDealActivationFailed"
| "kind (UnableToLocatePiece d e) = ProviderEventUnableToLocatePiece"
| "kind DealActivated = ProviderEventDealActivated"
| "kind (PieceStoreErrored e) = ProviderEventPieceStoreErrored"
| "kind (ReadMetadataErrored e) = ProviderEventReadMetadataErrored"
| "kind DealCompleted = ProviderEventDealCompleted"
| "kind Failed = ProviderEventFailed"
| "kind Restart = ProviderEventRestart"

text \<open>The source states of a table row: \<open>From\<close>, \<open>FromMany\<close> or \<open>FromAny\<close>.\<close>

datatype sources = From StorageDealStatus | FromMany "StorageDealStatus list" | FromAny

text \<open>\<open>providerstates.ProviderEvents\<close>: the rows of the transition table, each with its
  event, its source states and its destination, in the order of the source.\<close>

definition ProviderEvents_fsm :: "(ProviderEvent \<times> sources \<times> StorageDealStatus) list" where
  "ProviderEvents_fsm = [
    (ProviderEventOpen, From StorageDealUnknown, StorageDealValidating),
    (ProviderEventNodeErrored, FromAny, StorageDealFailing),
    (ProviderEventDealRejected,
       FromMany [StorageDealValidating, StorageDealVerifyData], StorageDealFailing),
    (ProviderEventDealAccepted, From StorageDealValidating, StorageDealProposalAccepted),
    (ProviderEventWaitingForManualData,
       From StorageDealProposalAccepted, StorageDealWaitingForData),
    (ProviderEventDataTransferFailed,
       FromMany [StorageDealProposalAccepted, StorageDealTransferring], StorageDealFailing),
    (ProviderEventDataTransferInitiated,
       From StorageDealProposalAccepted, StorageDealTransferring),
    (ProviderEventDataTransferCompleted, From StorageDealTransferring, StorageDealVerifyData),
    (ProviderEventGeneratePieceCIDFailed, From StorageDealVerifyData, StorageDealFailing),
    (ProviderEventVerifiedData,
       FromMany [StorageDealVerifyData, StorageDealWaitingForData],
       StorageDealEnsureProviderFunds),
    (ProviderEventFundingInitiated,
       From StorageDealEnsureProviderFunds, StorageDealProviderFunding),
    (ProviderEventFunded,
       FromMany [StorageDealProviderFunding, StorageDealEnsureProviderFunds],
       StorageDealPublish),
    (ProviderEventDealPublishInitiated, From StorageDealPublish, StorageDealPublishing),
    (ProviderEventDealPublishError, From StorageDealPublishing, StorageDealFailing),
    (ProviderEventSendResponseFailed,
       FromMany [StorageDealPublishing, StorageDealFailing], StorageDealError),
    (ProviderEventDealPublished, From StorageDealPublishing, StorageDealStaged),
    (ProviderEventFileStoreErrored,
       FromMany [StorageDealStaged, StorageDealSealing, StorageDealActive],
       StorageDealFailing),
    (ProviderEventDealHandoffFailed, From StorageDealStaged, StorageDealFailing),
    (ProviderEventDealHandedOff, From StorageDealStaged, StorageDealSealing),
    (ProviderEventDealActivationFailed, From StorageDealSealing, StorageDealFailing),
    (ProviderEventDealActivated, From StorageDealSealing, StorageDealActive),
    (ProviderEventPieceStoreErrored, From StorageDealActive, StorageDealFailing),
    (ProviderEventDealCompleted, From StorageDealActive, StorageDealCompleted),
    (ProviderEventUnableToLocatePiece, From StorageDealActive, StorageDealFailing),
    (ProviderEventReadMetadataErrored, From StorageDealActive, StorageDealFailing),
    (ProviderEventFailed, From StorageDealFailing, StorageDealError)]"

text \<open>The \<open>Action\<close> closures of the table, one equation for each event: the mutation of
  the record given the event's arguments. An event whose row has no action, or that has
  no row, leaves the fields as they are.\<close>

fun action :: "MinerDeal \<Rightarrow> event \<Rightarrow> MinerDeal" where
  "action deal Open = deal"
| "action deal (NodeErrored e) = deal\<lparr>Message := ''error calling node: '' @ e\<rparr>"
| "action deal (DealRejected e) = deal\<lparr>Message := ''deal rejected: '' @ e\<rparr>"
| "action deal DealAccepted = deal"
| "action deal WaitingForManualData = deal"
| "action deal InsufficientFunds = deal"
| "action deal (FundingInitiated mcid) = deal\<lparr>AddFundsCid := Some mcid\<rparr>"
| "action deal Funded = deal"
| "action deal (DataTransferFailed e) = deal\<lparr>Message := ''error transferring data: '' @ e\<rparr>"
| "action deal DataTransferInitiated = deal"
| "action deal DataTransferCompleted = deal"
| "action deal ManualDataReceived = deal"
| "action deal (GeneratePieceCIDFailed e) =
     deal\<lparr>Message := ''generating piece committment: '' @ e\<rparr>"
| "action deal (VerifiedData p metadataPath) =
     deal\<lparr>PiecePath := p, MetadataPath := metadataPath\<rparr>"
| "action deal (SendResponseFailed e) = deal\<lparr>Message := ''sending response to deal: '' @ e\<rparr>"
| "action deal (DealPublishInitiated publishCid) = deal\<lparr>PublishCid := Some publishCid\<rparr>"
| "action deal (DealPublished dealID) = deal\<lparr>ConnectionClosed := True, DealID := dealID\<rparr>"
| "action deal (DealPublishError e) = deal\<lparr>Message := ''PublishStorageDeal error: '' @ e\<rparr>"
| "action deal (FileStoreErrored e) = deal\<lparr>Message := ''accessing file store: '' @ e\<rparr>"
| "action deal (DealHandoffFailed e) = deal\<lparr>Message := ''handing off deal to node: '' @ e\<rparr>"
| "action deal DealHandedOff = deal"
| "action deal (DealActivationFailed e) = deal\<lparr>Message := ''error activating deal: '' @ e\<rparr>"
| "action deal (UnableToLocatePiece dealID e) =
     deal\<lparr>Message := ''locating piece for deal ID '' @ show_nat (unat (DealID deal))
            @ '' in sector: '' @ e\<rparr>"
| "action deal DealActivated = deal"
| "action deal (PieceStoreErrored e) = deal\<lparr>Message := ''accessing piece store: '' @ e\<rparr>"
| "action deal (ReadMetadataErrored e) =
     deal\<lparr>Message := ''error reading piece metadata: '' @ e\<rparr>"
| "action deal DealCompleted = deal"
| "action deal Failed = deal"
| "action deal Restart = deal"

text \<open>\<open>providerstates.ProviderFinalityStates\<close>.\<close>

definition ProviderFinalityStates :: "StorageDealStatus list" where
  "ProviderFinalityStates = [StorageDealError, StorageDealCompleted]"

subsection \<open>The event processor\<close>

text \<open>
  Modelled from the spec: the event processor that interprets the table belongs to the
  state-machine library the package imports, which is not part of this repository. Its
  contract (section 4.2 of the design): an event declared in the table for the record's
  current state, or declared from any state, runs its action and then assigns the
  destination state; an event not declared for the current state is refused with an
  invalid-transition diagnostic and the record is not modified. A record is terminated
  when its state is one of the finality states the machine is built with. Every event
  has one row in the table, so the order of the lookup does not matter.
\<close>

datatype diagnostic = InvalidTransition StorageDealStatus ProviderEvent

fun accepts :: "sources \<Rightarrow> StorageDealStatus \<Rightarrow> bool" where
  "accepts (From a) s = (s = a)"
| "accepts (FromMany as) s = (s \<in> set as)"
| "accepts FromAny s = True"

fun destination ::
  "(ProviderEvent \<times> sources \<times> StorageDealStatus) list \<Rightarrow> ProviderEvent \<Rightarrow> StorageDealStatus
     \<Rightarrow> StorageDealStatus option" where
  "destination [] name s = None"
| "destination ((name', src, dst) # rows) name s =
     (if name' = name \<and> accepts src s then Some dst else destination rows name s)"

text \<open>Applying one event: the diagnostic, if the event is refused, and the record after
  the call.\<close>

definition Apply :: "MinerDeal \<Rightarrow> event \<Rightarrow> diagnostic option \<times> MinerDeal" where
  "Apply deal ev =
     (case destination ProviderEvents_fsm (kind ev) (State deal) of
        None \<Rightarrow> (Some (InvalidTransition (State deal) (kind ev)), deal)
      | Some dst \<Rightarrow> (None, (action deal ev)\<lparr>State := dst\<rparr>))"

definition IsTerminated :: "MinerDeal \<Rightarrow> bool" where
  "IsTerminated deal = (State deal \<in> set ProviderFinalityStates)"

text \<open>
  Modelled from the spec: the engine of the provider state machine, which
  \<open>NewProviderStateMachine\<close> builds from the table and the finality states, is not among
  the sources; \<open>TestFinalityStates\<close> calls it. By the data model and scenario S7 of
  the design, once a record is terminal no further transition is accepted: any event fired
  against it is dropped with an invalid-transition diagnostic and the record is unchanged.
  An event fired against a record that is not terminated goes to the event processor.
\<close>

definition fire :: "MinerDeal \<Rightarrow> event \<Rightarrow> diagnostic option \<times> MinerDeal" where
  "fire deal ev =
     (if IsTerminated deal then (Some (InvalidTransition (State deal) (kind ev)), deal)
      else Apply deal ev)"

text \<open>The engine applies the events fired for a record strictly in order; a refused
  event is dropped and the record stays as it was. \<open>history\<close> lists the record as it
  stood before the first event and after each one.\<close>

fun history :: "MinerDeal \<Rightarrow> event list \<Rightarrow> MinerDeal list" where
  "history deal [] = [deal]"
| "history deal (ev # evs) = deal # history (snd (Apply deal ev)) evs"

definition passed_through :: "MinerDeal \<Rightarrow> event list \<Rightarrow> StorageDealStatus \<Rightarrow> bool" where
  "passed_through deal evs s = (s \<in> State ` set (history deal evs))"

section \<open>The fake node and environment of the tests (package testnodes and the test file)\<close>

record Balance =
  Locked :: TokenAmount
  Available :: TokenAmount

record StorageMarketState =
  TipSetToken :: "8 word list"
  Epoch :: ChainEpoch
  Balances :: "address \<rightharpoonup> TokenAmount"

definition NewStorageMarketState :: StorageMarketState where
  "NewStorageMarketState = \<lparr>TipSetToken = [], Epoch = 0, Balances = Map.empty\<rparr>"

definition AddFunds :: "StorageMarketState \<Rightarrow> address \<Rightarrow> TokenAmount \<Rightarrow> StorageMarketState" where
  "AddFunds sma addr amount =
     (case Balances sma addr of
        Some existing \<Rightarrow> sma\<lparr>Balances := (Balances sma)(addr \<mapsto> existing + amount)\<rparr>
      | None \<Rightarrow> sma\<lparr>Balances := (Balances sma)(addr \<mapsto> amount)\<rparr>)"

definition StateBalance :: "StorageMarketState \<Rightarrow> address \<Rightarrow> Balance" where
  "StateBalance sma addr =
     (case Balances sma addr of
        Some existing \<Rightarrow> \<lparr>Locked = 0, Available = existing\<rparr>
      | None \<Rightarrow> \<lparr>Locked = 0, Available = 0\<rparr>)"

record FakeCommonNode =
  SMState :: StorageMarketState
  VerifySignatureFails :: bool
  GetBalanceError :: "err option"
  GetChainHeadError :: "err option"

definition GetChainHead :: "FakeCommonNode \<Rightarrow> err + (8 word list \<times> ChainEpoch)" where
  "GetChainHead n =
     (case GetChainHeadError n of
        None \<Rightarrow> Inr (TipSetToken (SMState n), Epoch (SMState n))
      | Some e \<Rightarrow> Inl e)"

definition GetBalance :: "FakeCommonNode \<Rightarrow> address \<Rightarrow> err + Balance" where
  "GetBalance n addr =
     (case GetBalanceError n of
        None \<Rightarrow> Inr (StateBalance (SMState n) addr)
      | Some e \<Rightarrow> Inl e)"

definition VerifySignature :: "FakeCommonNode \<Rightarrow> bool" where
  "VerifySignature n = (\<not> VerifySignatureFails n)"

record fakeEnvironment =
  address :: address
  node :: FakeCommonNode
  ask :: StorageAsk
  sendSignedResponseError :: "err option"
  dealAcceptanceBuffer :: ChainEpoch

text \<open>The calls a handler makes on its environment, in order.\<close>

datatype call = TagConnection cid | SendSignedResponse cid | Disconnect cid | Delete path

section \<open>State entry handlers\<close>

text \<open>
  Modelled from the spec: the handler bodies \<open>ValidateDealProposal\<close> and \<open>FailDeal\<close> of
  package providerstates are not among the sources; the test file calls them and fixes
  the messages they produce. A handler reads the record and the environment and triggers
  one event; it is modelled by the calls it makes and the event it triggers.

  \<open>ValidateDealProposal\<close> (handler 1 of the design, scenarios S1 to S3): verify the
  proposal signature; verify that the provider address matches the local address; query
  the chain head; reject if the current epoch is greater than the start epoch minus the
  acceptance buffer; reject if the price per epoch is below the ask's price for the piece
  (the ask quotes a price per GiB and epoch, so the price for the piece is the ask price
  times the piece size divided by \<open>2 ^ 30\<close>, in integer arithmetic); reject if the piece
  size is below the ask's minimum or above its maximum; query the client's market balance;
  reject if the available balance is below the required client lockup; otherwise tag the
  connection and accept. A failed chain query triggers the node-errored event, a failed
  policy check the deal-rejected event. The required client lockup is taken as the client
  collateral plus the price per epoch over the deal's duration, which agrees with the
  balances the test file accepts and rejects; the text of the maximum-size rejection is
  not fixed by the spec or the tests.
\<close>

definition required_client_lockup :: "DealProposal \<Rightarrow> TokenAmount" where
  "required_client_lockup p =
     ClientCollateral p + StoragePricePerEpoch p * (EndEpoch p - StartEpoch p)"

text \<open>Modelled from the spec: the price per epoch the ask demands for the piece of a
  proposal (scenario S1).\<close>

definition min_price :: "StorageAsk \<Rightarrow> DealProposal \<Rightarrow> TokenAmount" where
  "min_price a p = (Price a * uint (PieceSize p)) div 2 ^ 30"

text \<open>Modelled from the spec: the handler \<open>ValidateDealProposal\<close>, its checks in the
  order of the design.\<close>

definition ValidateDealProposal :: "fakeEnvironment \<Rightarrow> MinerDeal \<Rightarrow> call list \<times> event" where
  "ValidateDealProposal environment deal =
     (if \<not> VerifySignature (node environment) then
        ([], DealRejected ''verifying StorageDealProposal: could not verify signature'')
      else if Provider (Proposal deal) \<noteq> address environment then
        ([], DealRejected ''incorrect provider for deal'')
      else case GetChainHead (node environment) of
        Inl e \<Rightarrow> ([], NodeErrored (''getting most recent state id: '' @ e))
      | Inr (tok, height) \<Rightarrow>
          if height > StartEpoch (Proposal deal) - dealAcceptanceBuffer environment then
            ([], DealRejected ''deal start epoch is too soon or deal already expired'')
          else if StoragePricePerEpoch (Proposal deal)
                    < min_price (ask environment) (Proposal deal) then
            ([], DealRejected (''storage price per epoch less than asking price: ''
                   @ show_int (StoragePricePerEpoch (Proposal deal)) @ '' < ''
                   @ show_int (min_price (ask environment) (Proposal deal))))
          else if PieceSize (Proposal deal) < MinPieceSize (ask environment) then
            ([], DealRejected (''piece size less than minimum required size: ''
                   @ show_nat (unat (PieceSize (Proposal deal))) @ '' < ''
                   @ show_nat (unat (MinPieceSize (ask environment)))))
          else if PieceSize (Proposal deal) > MaxPieceSize (ask environment) then
            ([], DealRejected (''piece size more than maximum allowed size: ''
                   @ show_nat (unat (PieceSize (Proposal deal))) @ '' > ''
                   @ show_nat (unat (MaxPieceSize (ask environment)))))
          else (case GetBalance (node environment) (Client (Proposal deal)) of
            Inl e \<Rightarrow> ([], NodeErrored (''getting client market balance failed: '' @ e))
          | Inr clientMarketBalance \<Rightarrow>
              if Available clientMarketBalance < required_client_lockup (Proposal deal) then
                ([], DealRejected ''clientMarketBalance.Available too small'')
              else ([TagConnection (ProposalCid deal)], DealAccepted)))"

text \<open>
  Modelled from the spec: \<open>FailDeal\<close> (handler 11 of the design): if the connection is
  still open, send a signed failure response, and report an error of the send with the
  send-response-failed event; otherwise skip the response; delete the piece file and the
  metadata file where the record names one; trigger the failed event.
\<close>

definition deletions :: "MinerDeal \<Rightarrow> call list" where
  "deletions deal =
     (if PiecePath deal \<noteq> [] then [Delete (PiecePath deal)] else [])
     @ (if MetadataPath deal \<noteq> [] then [Delete (MetadataPath deal)] else [])"

text \<open>Modelled from the spec: the handler \<open>FailDeal\<close>.\<close>

definition FailDeal :: "fakeEnvironment \<Rightarrow> MinerDeal \<Rightarrow> call list \<times> event" where
  "FailDeal environment deal =
     (if \<not> ConnectionClosed deal then
        (case sendSignedResponseError environment of
           Some e \<Rightarrow> ([SendSignedResponse (ProposalCid deal)], SendResponseFailed e)
         | None \<Rightarrow>
             (SendSignedResponse (ProposalCid deal) # Disconnect (ProposalCid deal)
                # deletions deal, Failed))
      else (deletions deal, Failed))"

text \<open>The executor of the tests: run the handler on the record, then replay the event it
  triggered on the record.\<close>

definition executor ::
  "(fakeEnvironment \<Rightarrow> MinerDeal \<Rightarrow> call list \<times> event) \<Rightarrow> fakeEnvironment \<Rightarrow> MinerDeal
     \<Rightarrow> MinerDeal" where
  "executor stateEntryFunc environment dealState =
     snd (Apply dealState (snd (stateEntryFunc environment dealState)))"

definition sends_response :: "call list \<Rightarrow> bool" where
  "sends_response calls = (\<exists>c \<in> set calls. case c of SendSignedResponse x \<Rightarrow> True | _ \<Rightarrow> False)"

subsection \<open>The default parameters of the tests\<close>

definition defaultClientAddress :: address where "defaultClientAddress = ''TestAddress''"
definition defaultProviderAddress :: address where "defaultProviderAddress = ''TestAddress2''"

definition defaultProposal :: DealProposal where
  "defaultProposal = \<lparr>
     PieceCID = ''defaultPieceCid'',
     PieceSize = 1048576,
     Client = defaultClientAddress,
     Provider = defaultProviderAddress,
     StartEpoch = 200,
     EndEpoch = 400,
     StoragePricePerEpoch = 10000,
     ProviderCollateral = 0,
     ClientCollateral = 0\<rparr>"

definition defaultAsk :: StorageAsk where
  "defaultAsk = \<lparr>
     Price = 10000000,
     MinPieceSize = 256,
     MaxPieceSize = push_bit 20 1,
     AskMiner = [],
     Timestamp = 0,
     Expiry = 0,
     SeqNo = 0\<rparr>"

text \<open>The record \<open>makeExecutor\<close> starts a handler on: the given state and proposal, no
  message, the connection open.\<close>

definition testMinerDeal :: "StorageDealStatus \<Rightarrow> DealProposal \<Rightarrow> MinerDeal" where
  "testMinerDeal initialState proposal = \<lparr>
     Proposal = proposal,
     ClientSignature = ''testSignature'',
     ProposalCid = ''proposalCid'',
     AddFundsCid = Some ''addFundsCid'',
     PublishCid = Some ''publishCid'',
     Miner = ''miner'',
     ClientPeer = ''client'',
     State = initialState,
     PiecePath = [],
     MetadataPath = [],
     ConnectionClosed = False,
     Message = [],
     Ref = Some \<lparr>TransferType = ''graphsync'', Root = ''root'', PieceCid = None,
                 RefPieceSize = 0\<rparr>,
     DealID = 0\<rparr>"

text \<open>The node and the environment \<open>makeExecutor\<close> builds: the chain at the given height
  (50 when the test gives none), the default client funded with \<open>200 * 10000\<close>, the
  default ask and the default provider address.\<close>

definition testNode :: "ChainEpoch \<Rightarrow> FakeCommonNode" where
  "testNode height = \<lparr>
     SMState = AddFunds
       (NewStorageMarketState\<lparr>Epoch := (if height \<noteq> 0 then height else 50),
          TipSetToken := (if height \<noteq> 0 then [] else [1, 2, 3])\<rparr>)
       defaultClientAddress (200 * 10000),
     VerifySignatureFails = False,
     GetBalanceError = None,
     GetChainHeadError = None\<rparr>"

definition testEnvironment :: "ChainEpoch \<Rightarrow> ChainEpoch \<Rightarrow> err option \<Rightarrow> fakeEnvironment" where
  "testEnvironment height buffer sendError = \<lparr>
     address = defaultProviderAddress,
     node = testNode height,
     ask = defaultAsk,
     sendSignedResponseError = sendError,
     dealAcceptanceBuffer = buffer\<rparr>"

subsection \<open>Auxiliary notions for the properties\<close>

definition failed_or_error :: "StorageDealStatus \<Rightarrow> bool" where
  "failed_or_error s = (s = StorageDealFailing \<or> s = StorageDealError)"

text \<open>The chain epoch the validation reads, when the chain head can be read, and the
  conditions of the validation that the properties name.\<close>

definition chain_epoch :: "fakeEnvironment \<Rightarrow> ChainEpoch option" where
  "chain_epoch environment =
     (case GetChainHead (node environment) of
        Inl e \<Rightarrow> None
      | Inr (tok, height) \<Rightarrow> Some height)"

definition too_soon :: "fakeEnvironment \<Rightarrow> MinerDeal \<Rightarrow> bool" where
  "too_soon environment deal =
     (case chain_epoch environment of
        None \<Rightarrow> False
      | Some height \<Rightarrow>
          height > StartEpoch (Proposal deal) - dealAcceptanceBuffer environment)"

definition client_funded :: "fakeEnvironment \<Rightarrow> MinerDeal \<Rightarrow> bool" where
  "client_funded environment deal =
     (case GetBalance (node environment) (Client (Proposal deal)) of
        Inl e \<Rightarrow> False
      | Inr b \<Rightarrow> \<not> Available b < required_client_lockup (Proposal deal))"

definition is_rejection :: "event \<Rightarrow> bool" where
  "is_rejection ev = (case ev of DealRejected e \<Rightarrow> True | _ \<Rightarrow> False)"

text \<open>A run in which the response after publication cannot be sent: the events of a deal
  up to the publishing state, then the send-response-failed event.\<close>

definition send_failure_run :: "event list" where
  "send_failure_run = [Open, DealAccepted, DataTransferInitiated, DataTransferCompleted,
     VerifiedData ''file.txt'' ''metadataPath.txt'', Funded,
     DealPublishInitiated ''publishCid'', SendResponseFailed ''could not send'']"

section \<open>Properties of the transition table\<close>

lemma table_rows_distinct: "distinct (map fst ProviderEvents_fsm)"
  by (simp add: ProviderEvents_fsm_def)

lemmas test_defs = testEnvironment_def testNode_def testMinerDeal_def defaultProposal_def
  defaultAsk_def defaultClientAddress_def defaultProviderAddress_def NewStorageMarketState_def
  AddFunds_def StateBalance_def GetChainHead_def GetBalance_def VerifySignature_def

text \<open>
  C1. The terminal states are exactly \<open>StorageDealCompleted\<close> and \<open>StorageDealError\<close>: a
  record is reported as terminated if and only if its state is one of the two, so a record
  in any other state is not reported as terminated. Every event fired against a terminated
  record is refused by the engine with an invalid-transition diagnostic and leaves the
  record unchanged. For every event but the node-errored one the table itself has no row
  from a terminal state, so the event processor alone refuses it (third part); the
  node-errored event is declared from any state, and its refusal on a terminated record
  is the engine's terminality rule.
\<close>

theorem provider_terminality:
  "(IsTerminated deal \<longleftrightarrow> State deal = StorageDealCompleted \<or> State deal = StorageDealError)
   \<and> (IsTerminated deal \<longrightarrow>
        fire deal ev = (Some (InvalidTransition (State deal) (kind ev)), deal))
   \<and> (IsTerminated deal \<and> kind ev \<noteq> ProviderEventNodeErrored \<longrightarrow>
        Apply deal ev = (Some (InvalidTransition (State deal) (kind ev)), deal))"
proof -
  have t: "IsTerminated deal \<longleftrightarrow>
      State deal = StorageDealCompleted \<or> State deal = StorageDealError"
    by (auto simp add: IsTerminated_def ProviderFinalityStates_def)
  have f: "fire deal ev = (Some (InvalidTransition (State deal) (kind ev)), deal)"
    if "IsTerminated deal"
    using that by (simp add: fire_def)
  have r: "Apply deal ev = (Some (InvalidTransition (State deal) (kind ev)), deal)"
    if "IsTerminated deal" and "kind ev \<noteq> ProviderEventNodeErrored"
    using that unfolding t by (cases ev) (auto simp add: Apply_def ProviderEvents_fsm_def)
  show ?thesis using t f r by blast
qed

text \<open>A record in \<open>StorageDealError\<close> is terminated; the engine refuses the node-errored
  event on it and the table refuses the failed event; a failing record is not terminated.\<close>

theorem provider_terminality_witness:
  "IsTerminated (testMinerDeal StorageDealError defaultProposal)
   \<and> fire (testMinerDeal StorageDealError defaultProposal) (NodeErrored ''boom'') =
       (Some (InvalidTransition StorageDealError ProviderEventNodeErrored),
        testMinerDeal StorageDealError defaultProposal)
   \<and> Apply (testMinerDeal StorageDealError defaultProposal) Failed =
       (Some (InvalidTransition StorageDealError ProviderEventFailed),
        testMinerDeal StorageDealError defaultProposal)
   \<and> \<not> IsTerminated (testMinerDeal StorageDealFailing defaultProposal)"
  using
    provider_terminality [of "testMinerDeal StorageDealError defaultProposal"
      "NodeErrored ''boom''"]
    provider_terminality [of "testMinerDeal StorageDealError defaultProposal" Failed]
    provider_terminality [of "testMinerDeal StorageDealFailing defaultProposal" Failed]
  by (simp add: testMinerDeal_def)

text \<open>
  C2, on the table: it has no row for \<open>ProviderEventRestart\<close>. Whatever the state of the
  record, the restart event is refused with an invalid-transition diagnostic and the
  record stays as it was; no state is re-entered.
\<close>

theorem restart_refused_in_every_state:
  "Apply deal Restart = (Some (InvalidTransition (State deal) ProviderEventRestart), deal)"
  by (simp add: Apply_def ProviderEvents_fsm_def)

text \<open>
  C3. For every record in state \<open>StorageDealPublishing\<close>, the deal-published event carrying
  the deal id \<open>D\<close> is accepted, moves the record to \<open>StorageDealStaged\<close>, sets its \<open>DealID\<close>
  to \<open>D\<close> and its \<open>ConnectionClosed\<close> flag to true, and changes nothing else.
\<close>

theorem deal_published_stages_deal:
  "State deal = StorageDealPublishing \<Longrightarrow>
   Apply deal (DealPublished D) =
     (None, deal\<lparr>ConnectionClosed := True, DealID := D, State := StorageDealStaged\<rparr>)"
  by (simp add: Apply_def ProviderEvents_fsm_def)

theorem deal_published_stages_deal_witness:
  "Apply (testMinerDeal StorageDealPublishing defaultProposal) (DealPublished 42) =
    (None, (testMinerDeal StorageDealPublishing defaultProposal)
       \<lparr>ConnectionClosed := True, DealID := 42, State := StorageDealStaged\<rparr>)"
  using deal_published_stages_deal [of "testMinerDeal StorageDealPublishing defaultProposal" 42]
  by (simp add: testMinerDeal_def)

subsection \<open>The failure message along a run\<close>

text \<open>One event keeps the invariant that a failing or failed record has a message, and
  a message appears exactly when the record enters one of these two states.\<close>

lemma Apply_step_message:
  assumes "failed_or_error (State d) \<longrightarrow> Message d \<noteq> []"
  shows "(failed_or_error (State (snd (Apply d ev))) \<longrightarrow> Message (snd (Apply d ev)) \<noteq> [])
     \<and> (Message (snd (Apply d ev)) \<noteq> [] \<longleftrightarrow>
          Message d \<noteq> [] \<or> failed_or_error (State (snd (Apply d ev))))"
  using assms
  by (cases ev; auto simp add: Apply_def ProviderEvents_fsm_def failed_or_error_def)

lemma history_nonempty: "history d evs \<noteq> []"
  by (cases evs) simp_all

lemma history_message:
  "(failed_or_error (State d) \<longrightarrow> Message d \<noteq> []) \<Longrightarrow>
   (failed_or_error (State (last (history d evs))) \<longrightarrow> Message (last (history d evs)) \<noteq> [])
   \<and> (Message (last (history d evs)) \<noteq> [] \<longleftrightarrow>
        Message d \<noteq> [] \<or> (\<exists>r \<in> set (history d evs). failed_or_error (State r)))"
proof (induction evs arbitrary: d)
  case Nil
  then show ?case by auto
next
  case (Cons ev evs)
  let ?d' = "snd (Apply d ev)"
  have s: "(failed_or_error (State ?d') \<longrightarrow> Message ?d' \<noteq> [])
     \<and> (Message ?d' \<noteq> [] \<longleftrightarrow> Message d \<noteq> [] \<or> failed_or_error (State ?d'))"
    using Apply_step_message [OF Cons.prems] .
  have ih: "(failed_or_error (State (last (history ?d' evs)))
        \<longrightarrow> Message (last (history ?d' evs)) \<noteq> [])
   \<and> (Message (last (history ?d' evs)) \<noteq> [] \<longleftrightarrow>
        Message ?d' \<noteq> [] \<or> (\<exists>r \<in> set (history ?d' evs). failed_or_error (State r)))"
    using Cons.IH s by blast
  have hd: "?d' \<in> set (history ?d' evs)"
    by (cases evs) simp_all
  have l: "last (history d (ev # evs)) = last (history ?d' evs)"
    by (simp add: history_nonempty)
  show ?case
    unfolding l using ih s hd Cons.prems by auto
qed

text \<open>
  C4, as the table has it. A record starts in \<open>StorageDealUnknown\<close> with an empty message.
  After any sequence of events, its message is non-empty if and only if it has passed
  through \<open>StorageDealFailing\<close> or \<open>StorageDealError\<close>: the send-response-failed event
  moves a publishing record to \<open>StorageDealError\<close> with a message and without the failing
  state. In particular every record that reaches \<open>StorageDealError\<close> carries a non-empty
  message.
\<close>

theorem message_iff_failing_or_error:
  assumes "State d = StorageDealUnknown" and "Message d = []"
  shows "(Message (last (history d evs)) \<noteq> [] \<longleftrightarrow>
            passed_through d evs StorageDealFailing \<or> passed_through d evs StorageDealError)
       \<and> (State (last (history d evs)) = StorageDealError
            \<longrightarrow> Message (last (history d evs)) \<noteq> [])"
proof -
  have i: "failed_or_error (State d) \<longrightarrow> Message d \<noteq> []"
    using assms by (simp add: failed_or_error_def)
  have m: "passed_through d evs s \<longleftrightarrow> (\<exists>r \<in> set (history d evs). State r = s)" for s
    unfolding passed_through_def by auto
  have p: "(\<exists>r \<in> set (history d evs). failed_or_error (State r)) \<longleftrightarrow>
     passed_through d evs StorageDealFailing \<or> passed_through d evs StorageDealError"
    by (simp add: m failed_or_error_def bex_disj_distrib)
  show ?thesis
    using history_message [OF i, of evs] assms p by (auto simp add: failed_or_error_def)
qed

theorem message_iff_failing_or_error_witness:
  "Message (last (history (testMinerDeal StorageDealUnknown defaultProposal) send_failure_run))
     \<noteq> []
   \<and> passed_through (testMinerDeal StorageDealUnknown defaultProposal) send_failure_run
       StorageDealError"
  using message_iff_failing_or_error
    [of "testMinerDeal StorageDealUnknown defaultProposal" send_failure_run]
  by (simp add: send_failure_run_def passed_through_def testMinerDeal_def Apply_def
      ProviderEvents_fsm_def)

text \<open>The run with the failed send ends with a message, and the record was never in
  \<open>StorageDealFailing\<close>.\<close>

theorem message_without_failing_state:
  "Message (last (history (testMinerDeal StorageDealUnknown defaultProposal) send_failure_run))
     \<noteq> []
   \<and> \<not> passed_through (testMinerDeal StorageDealUnknown defaultProposal) send_failure_run
       StorageDealFailing"
  by (simp add: send_failure_run_def passed_through_def testMinerDeal_def Apply_def
      ProviderEvents_fsm_def)

text \<open>
  C7. For every record, whatever its state, the node-errored event with error \<open>e\<close> is
  accepted, moves the record to \<open>StorageDealFailing\<close> and sets its message to
  \<open>error calling node: \<close> followed by the text of \<open>e\<close>.
\<close>

theorem node_errored_from_any_state:
  "Apply deal (NodeErrored e) =
     (None, deal\<lparr>Message := ''error calling node: '' @ e, State := StorageDealFailing\<rparr>)"
  by (simp add: Apply_def ProviderEvents_fsm_def)

text \<open>
  C8. The client display-name table has no entry for \<open>ClientEventRestart\<close>; the provider
  display-name table maps \<open>ProviderEventRestart\<close> to its name.
\<close>

theorem restart_display_names:
  "event_name ClientEvents ClientEventRestart = None
   \<and> event_name ProviderEvents ProviderEventRestart = Some ''ProviderEventRestart''"
  by (simp add: event_name_def ClientEvents_def ProviderEvents_def)

subsection \<open>Decimal printing is injective\<close>

lemma digit_char_inj:
  assumes "a < 10" and "b < 10" and "digit_char a = digit_char b"
  shows "a = b"
proof -
  have "a \<in> {0, 1, 2, 3, 4, 5, 6, 7, 8, 9}" and "b \<in> {0, 1, 2, 3, 4, 5, 6, 7, 8, 9}"
    using assms(1,2) by auto
  then show ?thesis
    using assms(3) by (auto simp add: digit_char_def)
qed

lemma show_nat_small: "n < 10 \<Longrightarrow> show_nat n = [digit_char n]"
  by (subst show_nat.simps) simp

lemma show_nat_large:
  "\<not> n < 10 \<Longrightarrow> show_nat n = show_nat (n div 10) @ [digit_char (n mod 10)]"
  by (subst show_nat.simps) simp

lemma show_nat_nonempty: "show_nat n \<noteq> []"
  by (cases "n < 10") (simp_all add: show_nat_small show_nat_large)

lemma show_nat_inj: "show_nat n = show_nat m \<Longrightarrow> n = m"
proof (induction n arbitrary: m rule: show_nat.induct)
  case (1 n)
  show ?case
  proof (cases "n < 10")
    case small_n: True
    show ?thesis
    proof (cases "m < 10")
      case True
      then show ?thesis
        using "1.prems" small_n by (simp add: show_nat_small digit_char_inj)
    next
      case False
      then show ?thesis
        using "1.prems" small_n show_nat_nonempty [of "m div 10"]
        by (simp add: show_nat_small show_nat_large)
    qed
  next
    case large_n: False
    show ?thesis
    proof (cases "m < 10")
      case True
      then show ?thesis
        using "1.prems" large_n show_nat_nonempty [of "n div 10"]
        by (simp add: show_nat_small show_nat_large)
    next
      case False
      have e: "show_nat (n div 10) = show_nat (m div 10)"
        and d: "digit_char (n mod 10) = digit_char (m mod 10)"
        using "1.prems" large_n False by (simp_all add: show_nat_large)
      have q: "n div 10 = m div 10"
        using "1.IH" [OF large_n e] .
      have r: "n mod 10 = m mod 10"
        using d by (intro digit_char_inj) simp_all
      show ?thesis
        using q r by (metis div_mult_mod_eq)
    qed
  qed
qed

text \<open>
  C10. For every record and every error \<open>e\<close>, the action of the unable-to-locate-piece
  event with arguments \<open>(dealID, e)\<close> sets the message to
  \<open>locating piece for deal ID %d in sector: \<close> and the text of \<open>e\<close>, where \<open>%d\<close> is the
  record's own \<open>DealID\<close> in decimal; when the deal id of the arguments differs from the
  record's, the message is not the one that the deal id of the arguments would give. From
  \<open>StorageDealActive\<close> the event is accepted and moves the record to \<open>StorageDealFailing\<close>
  with that message.
\<close>

theorem unable_to_locate_piece_uses_record_deal_id:
  "Message (action deal (UnableToLocatePiece dealID e)) =
      ''locating piece for deal ID '' @ show_nat (unat (DealID deal)) @ '' in sector: '' @ e
   \<and> (dealID \<noteq> DealID deal \<longrightarrow>
        Message (action deal (UnableToLocatePiece dealID e)) \<noteq>
          ''locating piece for deal ID '' @ show_nat (unat dealID) @ '' in sector: '' @ e)
   \<and> (State deal = StorageDealActive \<longrightarrow>
        Apply deal (UnableToLocatePiece dealID e) =
          (None, deal\<lparr>Message := ''locating piece for deal ID '' @ show_nat (unat (DealID deal))
                    @ '' in sector: '' @ e, State := StorageDealFailing\<rparr>))"
proof -
  have "show_nat (unat (DealID deal)) \<noteq> show_nat (unat dealID)" if "dealID \<noteq> DealID deal"
    using that show_nat_inj [of "unat (DealID deal)" "unat dealID"]
    by (auto simp add: word_unat_eq_iff)
  then show ?thesis
    by (simp add: Apply_def ProviderEvents_fsm_def)
qed

text \<open>The record of the test, with deal id 1234, and an event that carries deal id 99.\<close>

theorem unable_to_locate_piece_witness:
  "Apply ((testMinerDeal StorageDealActive defaultProposal)\<lparr>DealID := 1234\<rparr>)
      (UnableToLocatePiece 99 ''could not find piece'') =
    (None, (testMinerDeal StorageDealActive defaultProposal)\<lparr>DealID := 1234,
       Message := ''locating piece for deal ID 1234 in sector: could not find piece'',
       State := StorageDealFailing\<rparr>)"
  using unable_to_locate_piece_uses_record_deal_id
    [of "(testMinerDeal StorageDealActive defaultProposal)\<lparr>DealID := 1234\<rparr>" 99
     "''could not find piece''"]
  by (simp add: testMinerDeal_def show_nat.simps digit_char_def)

section \<open>Properties of the handlers\<close>

text \<open>What the validation triggers, and where the event takes a validating record.\<close>

lemma rejected_from_validating:
  "State deal = StorageDealValidating \<Longrightarrow>
   Apply deal (DealRejected e) =
     (None, deal\<lparr>Message := ''deal rejected: '' @ e, State := StorageDealFailing\<rparr>)"
  by (simp add: Apply_def ProviderEvents_fsm_def)

lemma accepted_from_validating:
  "State deal = StorageDealValidating \<Longrightarrow>
   Apply deal DealAccepted = (None, deal\<lparr>State := StorageDealProposalAccepted\<rparr>)"
  by (simp add: Apply_def ProviderEvents_fsm_def)

lemma validate_failing:
  "State deal = StorageDealValidating \<Longrightarrow>
   snd (ValidateDealProposal environment deal) \<noteq> DealAccepted \<Longrightarrow>
   State (executor ValidateDealProposal environment deal) = StorageDealFailing"
  by (auto simp add: executor_def ValidateDealProposal_def Apply_def ProviderEvents_fsm_def
      split: sum.splits prod.splits if_splits)

lemma validate_price:
  assumes "VerifySignature (node environment)"
    and "Provider (Proposal deal) = address environment"
    and "chain_epoch environment = Some height"
    and "height \<le> StartEpoch (Proposal deal) - dealAcceptanceBuffer environment"
    and "StoragePricePerEpoch (Proposal deal) < min_price (ask environment) (Proposal deal)"
  shows "snd (ValidateDealProposal environment deal) =
     DealRejected (''storage price per epoch less than asking price: ''
        @ show_int (StoragePricePerEpoch (Proposal deal)) @ '' < ''
        @ show_int (min_price (ask environment) (Proposal deal)))"
  using assms
  by (auto simp add: ValidateDealProposal_def chain_epoch_def split: sum.splits prod.splits)

lemma price_not_accepted:
  "StoragePricePerEpoch (Proposal deal) < min_price (ask environment) (Proposal deal) \<Longrightarrow>
   snd (ValidateDealProposal environment deal) \<noteq> DealAccepted"
  by (auto simp add: ValidateDealProposal_def split: sum.splits prod.splits)

lemma too_soon_rejected:
  "too_soon environment deal \<Longrightarrow> is_rejection (snd (ValidateDealProposal environment deal))"
  by (auto simp add: too_soon_def chain_epoch_def ValidateDealProposal_def is_rejection_def
      split: sum.splits prod.splits option.splits)

lemma too_soon_message_iff:
  "snd (ValidateDealProposal environment deal) =
      DealRejected ''deal start epoch is too soon or deal already expired''
   \<longleftrightarrow> VerifySignature (node environment)
       \<and> Provider (Proposal deal) = address environment
       \<and> too_soon environment deal"
  by (auto simp add: too_soon_def chain_epoch_def ValidateDealProposal_def
      split: sum.splits prod.splits option.splits)

lemma accepted_iff:
  "snd (ValidateDealProposal environment deal) = DealAccepted
   \<longleftrightarrow> VerifySignature (node environment)
       \<and> Provider (Proposal deal) = address environment
       \<and> chain_epoch environment \<noteq> None
       \<and> \<not> too_soon environment deal
       \<and> \<not> StoragePricePerEpoch (Proposal deal) < min_price (ask environment) (Proposal deal)
       \<and> \<not> PieceSize (Proposal deal) < MinPieceSize (ask environment)
       \<and> \<not> PieceSize (Proposal deal) > MaxPieceSize (ask environment)
       \<and> client_funded environment deal"
  by (auto simp add: too_soon_def chain_epoch_def client_funded_def ValidateDealProposal_def
      split: sum.splits prod.splits option.splits)

text \<open>
  C5. For every environment and every validating record: a proposal whose price per epoch
  is below the minimum price for its piece (the ask's price per GiB and epoch times the
  piece size, divided by \<open>2 ^ 30\<close> in integer arithmetic) always ends in
  \<open>StorageDealFailing\<close>; when the signature and the provider address are accepted and
  the start epoch is not too soon, the record's message is
  \<open>deal rejected: storage price per epoch less than asking price: \<close> followed by the
  price, \<open> < \<close> and the minimum price. Against an ask with price 10000000, for a piece of
  1 MiB and a price per epoch of 5000, the minimum price is 9765 and the message is
  exactly \<open>deal rejected: storage price per epoch less than asking price: 5000 < 9765\<close>.
\<close>

theorem price_per_epoch_too_low:
  "(State deal = StorageDealValidating
      \<and> StoragePricePerEpoch (Proposal deal) < min_price (ask environment) (Proposal deal)
    \<longrightarrow> State (executor ValidateDealProposal environment deal) = StorageDealFailing)
   \<and> (State deal = StorageDealValidating
      \<and> VerifySignature (node environment)
      \<and> Provider (Proposal deal) = address environment
      \<and> chain_epoch environment = Some height
      \<and> height \<le> StartEpoch (Proposal deal) - dealAcceptanceBuffer environment
      \<and> StoragePricePerEpoch (Proposal deal) < min_price (ask environment) (Proposal deal)
    \<longrightarrow> executor ValidateDealProposal environment deal =
          deal\<lparr>Message := ''deal rejected: storage price per epoch less than asking price: ''
                  @ show_int (StoragePricePerEpoch (Proposal deal)) @ '' < ''
                  @ show_int (min_price (ask environment) (Proposal deal)),
               State := StorageDealFailing\<rparr>)
   \<and> (State deal = StorageDealValidating
      \<and> VerifySignature (node environment)
      \<and> Provider (Proposal deal) = address environment
      \<and> chain_epoch environment = Some height
      \<and> height \<le> StartEpoch (Proposal deal) - dealAcceptanceBuffer environment
      \<and> Price (ask environment) = 10000000
      \<and> PieceSize (Proposal deal) = 1048576
      \<and> StoragePricePerEpoch (Proposal deal) = 5000
    \<longrightarrow> min_price (ask environment) (Proposal deal) = 9765
        \<and> executor ValidateDealProposal environment deal =
          deal\<lparr>Message :=
                 ''deal rejected: storage price per epoch less than asking price: 5000 < 9765'',
               State := StorageDealFailing\<rparr>)"
proof -
  have a: "State (executor ValidateDealProposal environment deal) = StorageDealFailing"
    if "State deal = StorageDealValidating"
      and "StoragePricePerEpoch (Proposal deal) < min_price (ask environment) (Proposal deal)"
    using that by (simp add: validate_failing price_not_accepted)
  have b: "executor ValidateDealProposal environment deal =
          deal\<lparr>Message := ''deal rejected: storage price per epoch less than asking price: ''
                  @ show_int (StoragePricePerEpoch (Proposal deal)) @ '' < ''
                  @ show_int (min_price (ask environment) (Proposal deal)),
               State := StorageDealFailing\<rparr>"
    if "State deal = StorageDealValidating"
      and "VerifySignature (node environment)"
      and "Provider (Proposal deal) = address environment"
      and "chain_epoch environment = Some height"
      and "height \<le> StartEpoch (Proposal deal) - dealAcceptanceBuffer environment"
      and "StoragePricePerEpoch (Proposal deal) < min_price (ask environment) (Proposal deal)"
    using that validate_price [of environment deal height]
    by (simp add: executor_def rejected_from_validating)
  have m: "min_price (ask environment) (Proposal deal) = 9765"
    if "Price (ask environment) = 10000000" and "PieceSize (Proposal deal) = 1048576"
    using that by (simp add: min_price_def)
  have s: "show_int 5000 = ''5000''" "show_int 9765 = ''9765''"
    by (simp_all add: show_int_def show_nat.simps digit_char_def)
  have c: "min_price (ask environment) (Proposal deal) = 9765
        \<and> executor ValidateDealProposal environment deal =
          deal\<lparr>Message :=
                 ''deal rejected: storage price per epoch less than asking price: 5000 < 9765'',
               State := StorageDealFailing\<rparr>"
    if "State deal = StorageDealValidating"
      and "VerifySignature (node environment)"
      and "Provider (Proposal deal) = address environment"
      and "chain_epoch environment = Some height"
      and "height \<le> StartEpoch (Proposal deal) - dealAcceptanceBuffer environment"
      and "Price (ask environment) = 10000000"
      and "PieceSize (Proposal deal) = 1048576"
      and "StoragePricePerEpoch (Proposal deal) = 5000"
    using that b m s by simp
  show ?thesis using a b c by blast
qed

text \<open>The test: the default ask and proposal, the chain at epoch 50, the price 5000.\<close>

theorem price_per_epoch_too_low_witness:
  "min_price defaultAsk (defaultProposal\<lparr>StoragePricePerEpoch := 5000\<rparr>) = 9765
   \<and> executor ValidateDealProposal (testEnvironment 0 0 None)
        (testMinerDeal StorageDealValidating (defaultProposal\<lparr>StoragePricePerEpoch := 5000\<rparr>)) =
      (testMinerDeal StorageDealValidating (defaultProposal\<lparr>StoragePricePerEpoch := 5000\<rparr>))
        \<lparr>Message := ''deal rejected: storage price per epoch less than asking price: 5000 < 9765'',
         State := StorageDealFailing\<rparr>"
  using price_per_epoch_too_low
    [of "testMinerDeal StorageDealValidating (defaultProposal\<lparr>StoragePricePerEpoch := 5000\<rparr>)"
      "testEnvironment 0 0 None" 50]
  by (simp add: chain_epoch_def test_defs)

text \<open>
  C6, as the handler has it. A proposal is too soon when the chain head is read and the
  current epoch is greater than the start epoch minus the acceptance buffer. Validation
  rejects every proposal that is too soon, and it rejects with the message
  \<open>deal start epoch is too soon or deal already expired\<close> exactly when the signature and
  the provider address are accepted and the proposal is too soon; a validating record
  then moves to \<open>StorageDealFailing\<close> with \<open>deal rejected: \<close> and that message. A proposal
  that is not too soon is not thereby accepted: a validating record moves to
  \<open>StorageDealProposalAccepted\<close> exactly when, besides, the signature, the provider
  address, the price, the piece size and the client's balance pass. With buffer 10 and
  start epoch 200 and the other parameters of the tests, validating at epoch 191 fails with
  the message and validating at epoch 190 accepts.
\<close>

theorem start_epoch_too_soon:
  "(too_soon environment deal \<longrightarrow>
      is_rejection (snd (ValidateDealProposal environment deal)))
   \<and> (snd (ValidateDealProposal environment deal) =
          DealRejected ''deal start epoch is too soon or deal already expired''
        \<longleftrightarrow> VerifySignature (node environment)
            \<and> Provider (Proposal deal) = address environment
            \<and> too_soon environment deal)
   \<and> (State deal = StorageDealValidating
        \<and> VerifySignature (node environment)
        \<and> Provider (Proposal deal) = address environment
        \<and> too_soon environment deal
      \<longrightarrow> executor ValidateDealProposal environment deal =
            deal\<lparr>Message := ''deal rejected: deal start epoch is too soon or deal already expired'',
                 State := StorageDealFailing\<rparr>)
   \<and> (State deal = StorageDealValidating \<longrightarrow>
        (executor ValidateDealProposal environment deal =
            deal\<lparr>State := StorageDealProposalAccepted\<rparr>
         \<longleftrightarrow> VerifySignature (node environment)
            \<and> Provider (Proposal deal) = address environment
            \<and> chain_epoch environment \<noteq> None
            \<and> \<not> too_soon environment deal
            \<and> \<not> StoragePricePerEpoch (Proposal deal)
                   < min_price (ask environment) (Proposal deal)
            \<and> \<not> PieceSize (Proposal deal) < MinPieceSize (ask environment)
            \<and> \<not> PieceSize (Proposal deal) > MaxPieceSize (ask environment)
            \<and> client_funded environment deal))"
proof -
  have c: "executor ValidateDealProposal environment deal =
            deal\<lparr>Message := ''deal rejected: deal start epoch is too soon or deal already expired'',
                 State := StorageDealFailing\<rparr>"
    if "State deal = StorageDealValidating" and "VerifySignature (node environment)"
      and "Provider (Proposal deal) = address environment" and "too_soon environment deal"
    using that too_soon_message_iff [of environment deal]
    by (simp add: executor_def rejected_from_validating)
  have d: "executor ValidateDealProposal environment deal =
            deal\<lparr>State := StorageDealProposalAccepted\<rparr>
         \<longleftrightarrow> snd (ValidateDealProposal environment deal) = DealAccepted"
    if v: "State deal = StorageDealValidating"
  proof
    assume "snd (ValidateDealProposal environment deal) = DealAccepted"
    then show "executor ValidateDealProposal environment deal =
            deal\<lparr>State := StorageDealProposalAccepted\<rparr>"
      using v by (simp add: executor_def accepted_from_validating)
  next
    assume e: "executor ValidateDealProposal environment deal =
            deal\<lparr>State := StorageDealProposalAccepted\<rparr>"
    show "snd (ValidateDealProposal environment deal) = DealAccepted"
    proof (rule ccontr)
      assume "snd (ValidateDealProposal environment deal) \<noteq> DealAccepted"
      then have "State (executor ValidateDealProposal environment deal) = StorageDealFailing"
        using v by (rule validate_failing [rotated])
      then show False using e by simp
    qed
  qed
  show ?thesis
    using too_soon_rejected [of environment deal] too_soon_message_iff [of environment deal]
      c d accepted_iff [of environment deal]
    by blast
qed

text \<open>The two tests: buffer 10, start epoch 200, the chain at epoch 191 and at epoch 190.\<close>

theorem start_epoch_too_soon_witness:
  "executor ValidateDealProposal (testEnvironment 191 10 None)
        (testMinerDeal StorageDealValidating defaultProposal) =
      (testMinerDeal StorageDealValidating defaultProposal)
        \<lparr>Message := ''deal rejected: deal start epoch is too soon or deal already expired'',
         State := StorageDealFailing\<rparr>
   \<and> executor ValidateDealProposal (testEnvironment 190 10 None)
        (testMinerDeal StorageDealValidating defaultProposal) =
      (testMinerDeal StorageDealValidating defaultProposal)
        \<lparr>State := StorageDealProposalAccepted\<rparr>"
  using
    start_epoch_too_soon [of "testEnvironment 191 10 None"
      "testMinerDeal StorageDealValidating defaultProposal"]
    start_epoch_too_soon [of "testEnvironment 190 10 None"
      "testMinerDeal StorageDealValidating defaultProposal"]
  by (simp add: too_soon_def chain_epoch_def client_funded_def min_price_def
      required_client_lockup_def test_defs)

text \<open>A proposal that is not too soon (epoch 50, start epoch 200, buffer 0) and is
  rejected all the same, for its piece size.\<close>

theorem rejected_though_not_too_soon:
  "\<not> too_soon (testEnvironment 0 0 None)
       (testMinerDeal StorageDealValidating (defaultProposal\<lparr>PieceSize := 128\<rparr>))
   \<and> executor ValidateDealProposal (testEnvironment 0 0 None)
        (testMinerDeal StorageDealValidating (defaultProposal\<lparr>PieceSize := 128\<rparr>)) =
      (testMinerDeal StorageDealValidating (defaultProposal\<lparr>PieceSize := 128\<rparr>))
        \<lparr>Message := ''deal rejected: piece size less than minimum required size: 128 < 256'',
         State := StorageDealFailing\<rparr>"
  by (simp add: too_soon_def chain_epoch_def executor_def ValidateDealProposal_def min_price_def
      test_defs show_nat.simps digit_char_def Apply_def ProviderEvents_fsm_def)

lemma deletions_send_nothing: "\<not> sends_response (deletions deal)"
  by (auto simp add: sends_response_def deletions_def)

text \<open>
  C9. When the fail-deal handler runs on a failing record whose \<open>ConnectionClosed\<close> flag
  is true, it sends no signed response, whatever error a send would have returned; it
  triggers the failed event, and the record moves from \<open>StorageDealFailing\<close> to
  \<open>StorageDealError\<close> with its message, and every other field, unchanged.
\<close>

theorem fail_deal_skips_response:
  assumes "ConnectionClosed deal" and "State deal = StorageDealFailing"
  shows "\<not> sends_response (fst (FailDeal environment deal))
    \<and> snd (FailDeal environment deal) = Failed
    \<and> executor FailDeal environment deal = deal\<lparr>State := StorageDealError\<rparr>
    \<and> Message (executor FailDeal environment deal) = Message deal"
  using assms
  by (simp add: FailDeal_def deletions_send_nothing executor_def Apply_def
      ProviderEvents_fsm_def)

text \<open>The test: the environment would fail every send, the connection is closed, and the
  record ends in \<open>StorageDealError\<close> with the empty message it started with.\<close>

theorem fail_deal_skips_response_witness:
  "\<not> sends_response (fst (FailDeal (testEnvironment 0 0 (Some ''could not send''))
        ((testMinerDeal StorageDealFailing defaultProposal)\<lparr>ConnectionClosed := True\<rparr>)))
   \<and> State (executor FailDeal (testEnvironment 0 0 (Some ''could not send''))
        ((testMinerDeal StorageDealFailing defaultProposal)\<lparr>ConnectionClosed := True\<rparr>))
       = StorageDealError
   \<and> Message (executor FailDeal (testEnvironment 0 0 (Some ''could not send''))
        ((testMinerDeal StorageDealFailing defaultProposal)\<lparr>ConnectionClosed := True\<rparr>)) = []"
  using fail_deal_skips_response
    [of "(testMinerDeal StorageDealFailing defaultProposal)\<lparr>ConnectionClosed := True\<rparr>"
      "testEnvironment 0 0 (Some ''could not send'')"]
  by (simp add: testMinerDeal_def)

end
